theory Spec2Isabelle
  imports Complex_Main "HOL-Library.AList"
begin

section \<open>Values and failures\<close>

text \<open>
  The calculator works on Python floats and Python ints. A float is read here as the real
  number it stands for: rounding, overflow, infinities produced by arithmetic and NaN are not
  modelled, so every statement below is about the formulas over the reals. An int is an
  unbounded \<open>int\<close>. What Python raises is a value of \<open>error\<close>; a function that can
  raise returns \<open>error + 'a\<close> with \<open>Inl\<close> for the failure.

  \<open>ComplexResult\<close> marks the one place where Python leaves the floats without raising: a
  negative float raised to a non-integral float power is a complex number. The model follows
  real values only and stops there.
\<close>

datatype error = ZeroDivisionError | ComplexResult | KeyError

definition bind_err :: "error + 'a \<Rightarrow> ('a \<Rightarrow> error + 'b) \<Rightarrow> error + 'b" where
  "bind_err r f = (case r of Inl e \<Rightarrow> Inl e | Inr v \<Rightarrow> f v)"

text \<open>\<^verbatim>\<open>x / y\<close> on floats: a zero divisor raises.\<close>

definition py_div :: "real \<Rightarrow> real \<Rightarrow> error + real" where
  "py_div x y = (if y = 0 then Inl ZeroDivisionError else Inr (x / y))"

text \<open>
  \<^verbatim>\<open>x ** n\<close> for a float \<open>x\<close> and an int \<open>n\<close>: zero to a negative power raises,
  and \<^verbatim>\<open>0.0 ** 0\<close> is 1.
\<close>

definition py_pow_int :: "real \<Rightarrow> int \<Rightarrow> error + real" where
  "py_pow_int x n = (if x = 0 \<and> n < 0 then Inl ZeroDivisionError else Inr (x powi n))"

text \<open>
  \<^verbatim>\<open>x ** y\<close> for two floats. Anything to the power 0 is 1; zero to a negative power
  raises; a negative base needs an integral exponent to stay real.
\<close>

definition py_pow_float :: "real \<Rightarrow> real \<Rightarrow> error + real" where
  "py_pow_float x y =
     (if y = 0 then Inr 1
      else if x = 0 then (if y < 0 then Inl ZeroDivisionError else Inr 0)
      else if x < 0 then
        (if of_int \<lfloor>y\<rfloor> = y then Inr (x powi \<lfloor>y\<rfloor>) else Inl ComplexResult)
      else Inr (x powr y))"

section \<open>Valuation primitives (calculator.py)\<close>

text \<open>
  \<^verbatim>\<open>calculate_keren_fv\<close>: the lump sum compounded yearly plus the ordinary-annuity
  formula for the monthly contributions, with the division by the monthly rate as the
  source writes it.
\<close>

definition calculate_keren_fv :: "real \<Rightarrow> real \<Rightarrow> int \<Rightarrow> real \<Rightarrow> error + real" where
  "calculate_keren_fv principal' net_return years monthly_contribution =
     bind_err (py_pow_int (1 + net_return) years) (\<lambda>growth.
       let fv_lump = principal' * growth in
       if monthly_contribution > 0 \<and> years > 0 then
         bind_err (py_pow_float (1 + net_return) (1 / 12)) (\<lambda>root.
           let monthly_rate = root - 1; months = years * 12 in
           bind_err (py_pow_int (1 + monthly_rate) months) (\<lambda>compound.
             bind_err (py_div (compound - 1) monthly_rate) (\<lambda>factor.
               Inr (fv_lump + monthly_contribution * factor))))
       else Inr (fv_lump + 0))"

text \<open>\<^verbatim>\<open>calculate_personal_fv_pretax\<close>: the same body on the personal return rate.\<close>

definition calculate_personal_fv_pretax :: "real \<Rightarrow> real \<Rightarrow> int \<Rightarrow> real \<Rightarrow> error + real" where
  "calculate_personal_fv_pretax principal' return_rate years monthly_contribution =
     bind_err (py_pow_int (1 + return_rate) years) (\<lambda>growth.
       let fv_lump = principal' * growth in
       if monthly_contribution > 0 \<and> years > 0 then
         bind_err (py_pow_float (1 + return_rate) (1 / 12)) (\<lambda>root.
           let monthly_rate = root - 1; months = years * 12 in
           bind_err (py_pow_int (1 + monthly_rate) months) (\<lambda>compound.
             bind_err (py_div (compound - 1) monthly_rate) (\<lambda>factor.
               Inr (fv_lump + monthly_contribution * factor))))
       else Inr (fv_lump + 0))"

text \<open>
  The loop of \<^verbatim>\<open>calculate_personal_fv_aftertax\<close> over
  \<^verbatim>\<open>range(1, years * 12 + 1)\<close>: each contribution grows for
  \<open>years * 12 - month + 1\<close> months and is taxed on its own gain. The last argument is
  the running total \<^verbatim>\<open>fv_contributions\<close>.
\<close>

fun contributions_loop :: "real \<Rightarrow> real \<Rightarrow> real \<Rightarrow> int \<Rightarrow> int list \<Rightarrow> real \<Rightarrow> error + real" where
  "contributions_loop monthly_contribution monthly_rate tax_rate years [] fv_contributions =
     Inr fv_contributions"
| "contributions_loop monthly_contribution monthly_rate tax_rate years (month # rest) fv_contributions =
     (let months_growth = years * 12 - month + 1 in
      bind_err (py_pow_int (1 + monthly_rate) months_growth) (\<lambda>compound.
        let contribution_fv = monthly_contribution * compound;
            contribution_gain = contribution_fv - monthly_contribution;
            contribution_after_tax = monthly_contribution + contribution_gain * (1 - tax_rate)
        in contributions_loop monthly_contribution monthly_rate tax_rate years rest
             (fv_contributions + contribution_after_tax)))"

definition calculate_personal_fv_aftertax :: "real \<Rightarrow> real \<Rightarrow> int \<Rightarrow> real \<Rightarrow> real \<Rightarrow> error + real" where
  "calculate_personal_fv_aftertax principal' return_rate years tax_rate monthly_contribution =
     bind_err
       (if principal' > 0 then
          bind_err (py_pow_int (1 + return_rate) years) (\<lambda>growth.
            let fv_lump_pretax = principal' * growth;
                gain_lump = fv_lump_pretax - principal'
            in Inr (principal' + gain_lump * (1 - tax_rate)))
        else Inr 0)
       (\<lambda>fv_lump.
          bind_err
            (if monthly_contribution > 0 \<and> years > 0 then
               bind_err (py_pow_float (1 + return_rate) (1 / 12)) (\<lambda>root.
                 let monthly_rate = root - 1 in
                 contributions_loop monthly_contribution monthly_rate tax_rate years
                   [1 .. years * 12] 0)
             else Inr 0)
            (\<lambda>fv_contributions. Inr (fv_lump + fv_contributions)))"

section \<open>Break-even search\<close>

text \<open>
  The loop of \<^verbatim>\<open>find_breakeven_year\<close> over
  \<^verbatim>\<open>range(keren_lockup_years + 1, max_years + 1)\<close>; it returns at the first year
  where the personal value reaches the fund value.
\<close>

fun breakeven_loop ::
  "real \<Rightarrow> real \<Rightarrow> real \<Rightarrow> real \<Rightarrow> real \<Rightarrow> int \<Rightarrow> real \<Rightarrow> int list \<Rightarrow> error + int option" where
  "breakeven_loop principal' keren_net_return personal_return tax_rate monthly_contribution
     keren_lockup_years keren_at_lockup [] = Inr None"
| "breakeven_loop principal' keren_net_return personal_return tax_rate monthly_contribution
     keren_lockup_years keren_at_lockup (year # rest) =
     bind_err (calculate_keren_fv principal' keren_net_return year monthly_contribution) (\<lambda>keren_fv.
       let years_since_lockup = year - keren_lockup_years in
       bind_err (calculate_personal_fv_pretax keren_at_lockup personal_return years_since_lockup 0)
         (\<lambda>lump_sum_pretax.
           let lump_sum_gain = lump_sum_pretax - keren_at_lockup;
               lump_sum_aftertax = keren_at_lockup + lump_sum_gain * (1 - tax_rate)
           in
           bind_err (calculate_personal_fv_aftertax 0 personal_return years_since_lockup
                       tax_rate monthly_contribution)
             (\<lambda>contributions_aftertax.
               let personal_fv = lump_sum_aftertax + contributions_aftertax in
               if personal_fv \<ge> keren_fv then Inr (Some year)
               else breakeven_loop principal' keren_net_return personal_return tax_rate
                      monthly_contribution keren_lockup_years keren_at_lockup rest)))"

definition find_breakeven_year ::
  "real \<Rightarrow> real \<Rightarrow> real \<Rightarrow> real \<Rightarrow> real \<Rightarrow> int \<Rightarrow> int \<Rightarrow> error + int option" where
  "find_breakeven_year principal' keren_net_return personal_return tax_rate monthly_contribution
     max_years keren_lockup_years =
     bind_err (calculate_keren_fv principal' keren_net_return keren_lockup_years monthly_contribution)
       (\<lambda>keren_at_lockup.
          breakeven_loop principal' keren_net_return personal_return tax_rate monthly_contribution
            keren_lockup_years keren_at_lockup [keren_lockup_years + 1 .. max_years])"

section \<open>Required-return inversion\<close>



section \<open>Sensitivity matrix\<close>

text \<open>
  The labels of the matrix are made with the format specifications \<^verbatim>\<open>.1f\<close> and
  \<^verbatim>\<open>.0f\<close>: the number rounded to one or to no decimal, ties going to the even
  digit, with a minus sign for a negative number even when it rounds to zero.
\<close>

definition round_half_even :: "real \<Rightarrow> int" where
  "round_half_even x =
     (let f = \<lfloor>x\<rfloor>; d = x - of_int f in
      if d < 1 / 2 then f else if d > 1 / 2 then f + 1 else if even f then f else f + 1)"

definition digit_char :: "nat \<Rightarrow> char" where
  "digit_char d = ''0123456789'' ! d"

fun digits_of_nat :: "nat \<Rightarrow> string" where
  "digits_of_nat n =
     (if n < 10 then [digit_char n] else digits_of_nat (n div 10) @ [digit_char (n mod 10)])"

declare digits_of_nat.simps [simp del]

definition format_f0 :: "real \<Rightarrow> string" where
  "format_f0 x =
     (let n = round_half_even x in
      (if x < 0 then ''-'' else []) @ digits_of_nat (nat \<bar>n\<bar>))"

definition format_f1 :: "real \<Rightarrow> string" where
  "format_f1 x =
     (let n = round_half_even (x * 10); a = nat \<bar>n\<bar> in
      (if x < 0 then ''-'' else []) @ digits_of_nat (a div 10) @ ''.'' @ [digit_char (a mod 10)])"

text \<open>
  A cell holds an int or a string. A Python dict is the list of its items in insertion order:
  assigning to a key that is present replaces the value where it stands, assigning to a new
  key appends it, which is \<^const>\<open>AList.update\<close>.
\<close>

datatype cell = IntCell int | StrCell string

type_synonym row = "(string \<times> cell) list"

definition tax_label :: "real \<Rightarrow> string" where
  "tax_label tr = ''Tax '' @ format_f0 (tr * 100) @ ''%''"

text \<open>
  \<^verbatim>\<open>be_year if be_year else ">50"\<close>: the year when it is an int other than 0, and
  the string otherwise.
\<close>

definition breakeven_cell :: "int option \<Rightarrow> cell" where
  "breakeven_cell be_year =
     (case be_year of
        None \<Rightarrow> StrCell ''>50''
      | Some y \<Rightarrow> if y = 0 then StrCell ''>50'' else IntCell y)"

text \<open>The inner loop of \<^verbatim>\<open>generate_sensitivity_matrix\<close>, over the tax rates.\<close>

fun sensitivity_row ::
  "real \<Rightarrow> real \<Rightarrow> real \<Rightarrow> real \<Rightarrow> int \<Rightarrow> int \<Rightarrow> real list \<Rightarrow> row \<Rightarrow> error + row" where
  "sensitivity_row principal' keren_net_return pr monthly_contribution max_years
     keren_lockup_years [] row = Inr row"
| "sensitivity_row principal' keren_net_return pr monthly_contribution max_years
     keren_lockup_years (tr # rest) row =
     bind_err (find_breakeven_year principal' keren_net_return pr tr monthly_contribution
                 max_years keren_lockup_years)
       (\<lambda>be_year.
          sensitivity_row principal' keren_net_return pr monthly_contribution max_years
            keren_lockup_years rest
            (AList.update (tax_label tr) (breakeven_cell be_year) row))"

text \<open>The outer loop, over the personal returns; \<open>data\<close> is the list of rows so far.\<close>

fun sensitivity_rows ::
  "real \<Rightarrow> real \<Rightarrow> real list \<Rightarrow> real \<Rightarrow> int \<Rightarrow> int \<Rightarrow> real list \<Rightarrow> row list \<Rightarrow> error + row list" where
  "sensitivity_rows principal' keren_net_return tax_rates monthly_contribution max_years
     keren_lockup_years [] data = Inr data"
| "sensitivity_rows principal' keren_net_return tax_rates monthly_contribution max_years
     keren_lockup_years (pr # rest) data =
     bind_err (sensitivity_row principal' keren_net_return pr monthly_contribution max_years
                 keren_lockup_years tax_rates
                 [(''Personal Return'', StrCell (format_f1 (pr * 100) @ ''%''))])
       (\<lambda>row.
          sensitivity_rows principal' keren_net_return tax_rates monthly_contribution max_years
            keren_lockup_years rest (data @ [row]))"

text \<open>
  The part of pandas that the function uses. \<^verbatim>\<open>pd.DataFrame(data)\<close> on a list of
  dicts takes as columns the keys in the order in which they first appear and fills a key
  that a row lacks with a missing value (\<open>None\<close> here).
  \<^verbatim>\<open>set_index\<close> moves a column into the index and raises
  \<^verbatim>\<open>KeyError\<close> when there is no such column, as for a frame made from no rows.
\<close>

record dataframe =
  df_index :: "cell option list"
  df_columns :: "string list"
  df_values :: "cell option list list"

definition frame_columns :: "row list \<Rightarrow> string list" where
  "frame_columns data =
     foldl (\<lambda>cols d. cols @ filter (\<lambda>k. k \<notin> set cols) (map fst d)) [] data"

definition set_index :: "string \<Rightarrow> row list \<Rightarrow> error + dataframe" where
  "set_index key data =
     (let cols = frame_columns data in
      if key \<notin> set cols then Inl KeyError
      else
        let rest = filter (\<lambda>k. k \<noteq> key) cols in
        Inr \<lparr>df_index = map (\<lambda>d. map_of d key) data,
             df_columns = rest,
             df_values = map (\<lambda>d. map (map_of d) rest) data\<rparr>)"

definition generate_sensitivity_matrix ::
  "real \<Rightarrow> real \<Rightarrow> real list \<Rightarrow> real list \<Rightarrow> real \<Rightarrow> int \<Rightarrow> int \<Rightarrow> error + dataframe" where
  "generate_sensitivity_matrix principal' keren_net_return personal_returns tax_rates
     monthly_contribution max_years keren_lockup_years =
     bind_err (sensitivity_rows principal' keren_net_return tax_rates monthly_contribution
                 max_years keren_lockup_years personal_returns [])
       (\<lambda>data. set_index ''Personal Return'' data)"

section \<open>Data model (models.py)\<close>

record investment_inputs =
  principal :: real
  monthly_contribution :: real
  keren_gross_return :: real
  keren_mgmt_fee :: real
  keren_return_is_net :: bool
  personal_return :: real
  capital_gains_tax :: real
  annual_tax_drag :: real
  include_tax_drag :: bool
  horizon_years :: int
  keren_lockup_years :: int

definition get_keren_net_return :: "investment_inputs \<Rightarrow> real" where
  "get_keren_net_return self =
     (if keren_return_is_net self then keren_gross_return self
      else (1 + keren_gross_return self) * (1 - keren_mgmt_fee self) - 1)"

definition get_personal_effective_return :: "investment_inputs \<Rightarrow> real" where
  "get_personal_effective_return self =
     (if include_tax_drag self then personal_return self - annual_tax_drag self
      else personal_return self)"

record yearly_result =
  year :: int
  keren_fv :: real
  personal_fv_pretax :: real
  personal_fv_aftertax :: real
  keren_wins :: bool

text \<open>The two derived properties of \<^verbatim>\<open>YearlyResult\<close>.\<close>

definition difference :: "yearly_result \<Rightarrow> real" where
  "difference self = personal_fv_aftertax self - keren_fv self"

definition difference_pct :: "yearly_result \<Rightarrow> real" where
  "difference_pct self =
     (if keren_fv self = 0 then 0
      else (personal_fv_aftertax self - keren_fv self) / keren_fv self * 100)"

section \<open>Comparison orchestrator\<close>

text \<open>
  One pass of the loop body of \<^verbatim>\<open>run_comparison\<close>, up to the
  \<^verbatim>\<open>YearlyResult\<close> it appends: the fund value of the year, and the personal
  values, which are the fund value up to the lockup year and the withdrawn lump sum plus the
  new contributions afterwards.
\<close>

definition yearly_outcome :: "investment_inputs \<Rightarrow> real \<Rightarrow> real \<Rightarrow> real \<Rightarrow> int \<Rightarrow> error + yearly_result" where
  "yearly_outcome inputs net_return effective_return keren_at_lockup yr =
     (let lockup = keren_lockup_years inputs in
      bind_err (calculate_keren_fv (principal inputs) net_return yr (monthly_contribution inputs))
        (\<lambda>fund_fv.
          bind_err
            (if yr \<le> lockup then Inr (fund_fv, fund_fv)
             else
               let years_since_lockup = yr - lockup in
               bind_err (calculate_personal_fv_pretax keren_at_lockup effective_return
                           years_since_lockup 0)
                 (\<lambda>lump_sum_pretax.
                   bind_err (calculate_personal_fv_pretax 0 effective_return years_since_lockup
                               (monthly_contribution inputs))
                     (\<lambda>contributions_pretax.
                       let pretax = lump_sum_pretax + contributions_pretax;
                           lump_sum_gain = lump_sum_pretax - keren_at_lockup;
                           lump_sum_aftertax =
                             keren_at_lockup + lump_sum_gain * (1 - capital_gains_tax inputs)
                       in
                       bind_err (calculate_personal_fv_aftertax 0 effective_return
                                   years_since_lockup (capital_gains_tax inputs)
                                   (monthly_contribution inputs))
                         (\<lambda>contributions_aftertax.
                           Inr (pretax, lump_sum_aftertax + contributions_aftertax)))))
            (\<lambda>(pretax, aftertax).
              Inr \<lparr>year = yr, keren_fv = fund_fv, personal_fv_pretax = pretax,
                   personal_fv_aftertax = aftertax, keren_wins = (fund_fv > aftertax)\<rparr>)))"

text \<open>
  The loop over \<^verbatim>\<open>range(1, horizon_years + 1)\<close>. Its state is the list of results
  so far and the break-even year, which is set once, at the first year after the lockup
  where the fund does not win.
\<close>

fun comparison_loop ::
  "investment_inputs \<Rightarrow> real \<Rightarrow> real \<Rightarrow> real \<Rightarrow> int list \<Rightarrow> yearly_result list \<Rightarrow> int option
     \<Rightarrow> error + yearly_result list \<times> int option" where
  "comparison_loop inputs net_return effective_return keren_at_lockup [] results breakeven =
     Inr (results, breakeven)"
| "comparison_loop inputs net_return effective_return keren_at_lockup (yr # rest) results breakeven =
     bind_err (yearly_outcome inputs net_return effective_return keren_at_lockup yr) (\<lambda>res.
       comparison_loop inputs net_return effective_return keren_at_lockup rest
         (results @ [res])
         (if breakeven = None \<and> \<not> keren_wins res \<and> yr > keren_lockup_years inputs
          then Some yr else breakeven))"

record comparison_result =
  inputs :: investment_inputs
  yearly_results :: "yearly_result list"
  breakeven_year :: "int option"
  keren_net_return :: real
  personal_effective_return :: real

definition run_comparison :: "investment_inputs \<Rightarrow> error + comparison_result" where
  "run_comparison inp =
     (let net_return = get_keren_net_return inp;
          effective_return = get_personal_effective_return inp;
          lockup = keren_lockup_years inp
      in
      bind_err (calculate_keren_fv (principal inp) net_return lockup (monthly_contribution inp))
        (\<lambda>keren_at_lockup.
          bind_err (comparison_loop inp net_return effective_return keren_at_lockup
                      [1 .. horizon_years inp] [] None)
            (\<lambda>(results, breakeven).
              Inr \<lparr>inputs = inp, yearly_results = results, breakeven_year = breakeven,
                   keren_net_return = net_return, personal_effective_return = effective_return\<rparr>)))"

text \<open>
  The reading of the yearly series that the break-even search is compared with: the first
  year after the lockup whose result does not have the fund winning.
\<close>

definition first_year_fund_not_winning :: "int \<Rightarrow> yearly_result list \<Rightarrow> int option" where
  "first_year_fund_not_winning lockup results =
     map_option year (find (\<lambda>res. year res > lockup \<and> \<not> keren_wins res) results)"

section \<open>Basic facts about failures and powers\<close>

lemma bind_err_Inl [simp]: "bind_err (Inl e) f = Inl e"
  by (simp add: bind_err_def)

lemma bind_err_Inr [simp]: "bind_err (Inr v) f = f v"
  by (simp add: bind_err_def)

lemma bind_err_eq_Inr: "bind_err r f = Inr y \<longleftrightarrow> (\<exists>v. r = Inr v \<and> f v = Inr y)"
  by (cases r) simp_all

lemma pretax_eq_keren: "calculate_personal_fv_pretax = calculate_keren_fv"
  by (intro ext) (simp add: calculate_personal_fv_pretax_def calculate_keren_fv_def)

lemma py_pow_int_nonneg: "0 \<le> n \<Longrightarrow> py_pow_int x n = Inr (x ^ nat n)"
  by (simp add: py_pow_int_def power_int_def)

lemma py_pow_float_pos: "0 < b \<Longrightarrow> py_pow_float b y = Inr (b powr y)"
  by (simp add: py_pow_float_def)

lemma monthly_root_returns: "-1 \<le> r \<Longrightarrow> \<exists>q. py_pow_float (1 + r) (1 / 12) = Inr q"
  by (simp add: py_pow_float_def)

text \<open>
  Inside the range of the loop every contribution grows for at least one month, so the power
  cannot raise and the loop adds up the taxed contributions.
\<close>

lemma contributions_loop_sum:
  assumes "\<forall>month\<in>set ms. month \<le> years * 12 + 1"
  shows "contributions_loop m mr tax years ms acc =
         Inr (acc + (\<Sum>month\<leftarrow>ms. m + (m * (1 + mr) powi (years * 12 - month + 1) - m) * (1 - tax)))"
  using assms
proof (induction ms arbitrary: acc)
  case Nil
  then show ?case by simp
next
  case (Cons month rest)
  have "py_pow_int (1 + mr) (years * 12 - month + 1) = Inr ((1 + mr) powi (years * 12 - month + 1))"
    using Cons.prems by (simp add: py_pow_int_def)
  then show ?case
    using Cons by (simp add: Let_def add.assoc)
qed

section \<open>The annuity formula at a zero monthly rate\<close>

text \<open>
  The loop of \<^verbatim>\<open>calculate_personal_fv_aftertax\<close> does not divide: at a return
  rate of 0 every contribution keeps its amount, whatever the tax rate, and the value is the
  principal plus the contributions.
\<close>

lemma aftertax_zero_rate:
  assumes "0 \<le> P" and "0 \<le> y" and "0 \<le> m"
  shows "calculate_personal_fv_aftertax P 0 y tax m = Inr (P + m * of_int (12 * y))"
proof -
  have root: "py_pow_float 1 (1 / 12) = Inr 1"
    by (simp add: py_pow_float_def)
  have loop: "contributions_loop m 0 tax y [1 .. y * 12] 0 = Inr (m * of_int (12 * y))"
    using assms by (simp add: contributions_loop_sum sum_list_triv)
  show ?thesis
    using assms by (auto simp: calculate_personal_fv_aftertax_def py_pow_int_nonneg root loop Let_def)
qed

text \<open>
  C1. The specification asks that a monthly rate of exactly zero makes the annuity term
  \<open>monthly_contribution * months\<close>, with no division by zero. The source divides by the
  monthly rate without looking at it: with a positive contribution and a positive number of
  years, a twelfth root equal to 1 (the monthly rate is 0, as for an annual rate of 0) makes
  both \<^verbatim>\<open>calculate_keren_fv\<close> and \<^verbatim>\<open>calculate_personal_fv_pretax\<close> raise
  \<^verbatim>\<open>ZeroDivisionError\<close>.
\<close>

theorem zero_monthly_rate_raises:
  assumes "0 < m" and "0 < y" and "py_pow_float (1 + r) (1 / 12) = Inr 1"
  shows "calculate_keren_fv P r y m = Inl ZeroDivisionError
       \<and> calculate_personal_fv_pretax P r y m = Inl ZeroDivisionError"
  using assms
  by (auto simp: calculate_keren_fv_def calculate_personal_fv_pretax_def py_pow_int_def
      py_div_def Let_def split: if_splits)

theorem zero_monthly_rate_raises_witness:
  "(0::real) < 100 \<and> (0::int) < 1 \<and> py_pow_float (1 + 0) (1 / 12) = Inr 1
   \<and> calculate_keren_fv 1000 0 1 100 = Inl ZeroDivisionError
   \<and> calculate_personal_fv_pretax 1000 0 1 100 = Inl ZeroDivisionError"
  using zero_monthly_rate_raises [of 100 1 0 1000] by (simp add: py_pow_float_def)

section \<open>Derived fields of a yearly result\<close>

text \<open>
  C6, as stated, at a fund value of 100 and a personal value of 150: the difference divided
  by the fund value is 1/2, and \<^verbatim>\<open>difference_pct\<close> is 50.
\<close>

theorem difference_pct_counterexample:
  "difference_pct \<lparr>year = 1, keren_fv = 100, personal_fv_pretax = 150,
                    personal_fv_aftertax = 150, keren_wins = False\<rparr>
   \<noteq> difference \<lparr>year = 1, keren_fv = 100, personal_fv_pretax = 150,
                    personal_fv_aftertax = 150, keren_wins = False\<rparr>
     / keren_fv \<lparr>year = 1, keren_fv = 100, personal_fv_pretax = 150,
                    personal_fv_aftertax = 150, keren_wins = False\<rparr>"
  by (simp add: difference_pct_def difference_def)

text \<open>
  C6, amended. For every yearly result the difference is the personal after-tax value minus
  the fund value, and \<^verbatim>\<open>difference_pct\<close> is that difference divided by the fund
  value and multiplied by 100 (a percentage), or 0 when the fund value is 0.
\<close>

theorem difference_pct_percent:
  "difference yr = personal_fv_aftertax yr - keren_fv yr
   \<and> (keren_fv yr = 0 \<longrightarrow> difference_pct yr = 0)
   \<and> (keren_fv yr \<noteq> 0 \<longrightarrow> difference_pct yr = difference yr / keren_fv yr * 100)"
  by (simp add: difference_pct_def difference_def)

theorem difference_pct_percent_witness:
  "difference_pct \<lparr>year = 1, keren_fv = 100, personal_fv_pretax = 150,
                    personal_fv_aftertax = 150, keren_wins = False\<rparr> = 50
   \<and> difference_pct \<lparr>year = 1, keren_fv = 0, personal_fv_pretax = 150,
                    personal_fv_aftertax = 150, keren_wins = False\<rparr> = 0"
  using difference_pct_percent [of "\<lparr>year = 1, keren_fv = 100, personal_fv_pretax = 150,
                    personal_fv_aftertax = 150, keren_wins = False\<rparr>"]
    difference_pct_percent [of "\<lparr>year = 1, keren_fv = 0, personal_fv_pretax = 150,
                    personal_fv_aftertax = 150, keren_wins = False\<rparr>"]
  by (simp add: difference_def)

section \<open>The required-return inversion\<close>







section \<open>A tax rate of 100%\<close>

text \<open>
  C8. For every principal \<open>P \<ge> 0\<close>, every return rate \<open>r\<close> (from -100% upwards, where
  the monthly rate is a real number), every number of years \<open>y \<ge> 0\<close> and every monthly
  contribution \<open>m \<ge> 0\<close>, the after-tax personal value at a tax rate of 1 is the contributed
  principal \<open>P + m * (12 * y)\<close>: no gain is kept.
\<close>

theorem full_tax_keeps_contributions:
  assumes "0 \<le> P" and "0 \<le> y" and "0 \<le> m" and "-1 \<le> r"
  shows "calculate_personal_fv_aftertax P r y 1 m = Inr (P + m * of_int (12 * y))"
proof -
  have lump: "(if P > 0 then
          bind_err (py_pow_int (1 + r) y) (\<lambda>growth.
            let fv_lump_pretax = P * growth;
                gain_lump = fv_lump_pretax - P
            in Inr (P + gain_lump * (1 - 1)))
        else Inr 0) = Inr P"
    using assms by (simp add: py_pow_int_nonneg Let_def)
  have loop: "contributions_loop m mr 1 y [1 .. y * 12] 0 = Inr (m * of_int (12 * y))" for mr
    using assms by (simp add: contributions_loop_sum sum_list_triv)
  obtain q where q: "py_pow_float (1 + r) (1 / 12) = Inr q"
    using monthly_root_returns [OF assms(4)] by blast
  have contrib: "(if m > 0 \<and> y > 0 then
               bind_err (py_pow_float (1 + r) (1 / 12)) (\<lambda>root.
                 let monthly_rate = root - 1 in
                 contributions_loop m monthly_rate 1 y [1 .. y * 12] 0)
             else Inr 0) = Inr (m * of_int (12 * y))"
    using assms by (auto simp: q loop Let_def)
  show ?thesis
    unfolding calculate_personal_fv_aftertax_def lump contrib by simp
qed

theorem full_tax_keeps_contributions_witness:
  "(0::real) \<le> 1000 \<and> (0::int) \<le> 2 \<and> (0::real) \<le> 100 \<and> (-1::real) \<le> 1 / 10
   \<and> calculate_personal_fv_aftertax 1000 (1 / 10) 2 1 100 = Inr 3400"
  using full_tax_keeps_contributions [of 1000 2 100 "1 / 10"] by simp

section \<open>The yearly series and the break-even search\<close>

lemma yearly_outcome_fields:
  assumes "yearly_outcome inp knr per kal yr = Inr res"
  shows "year res = yr"
    and "calculate_keren_fv (principal inp) knr yr (monthly_contribution inp) = Inr (keren_fv res)"
    and "keren_wins res \<longleftrightarrow> keren_fv res > personal_fv_aftertax res"
  using assms
  by (auto simp: yearly_outcome_def Let_def bind_err_eq_Inr split: if_splits)

lemma yearly_outcome_locked:
  assumes "yearly_outcome inp knr per kal yr = Inr res" and "yr \<le> keren_lockup_years inp"
  shows "personal_fv_pretax res = keren_fv res" and "personal_fv_aftertax res = keren_fv res"
  using assms
  by (auto simp: yearly_outcome_def Let_def bind_err_eq_Inr split: if_splits)


text \<open>
  What the loop of \<^verbatim>\<open>run_comparison\<close> returns: the results so far followed by one
  result per year, and a break-even year that, once set, is kept, and otherwise is the first
  new year after the lockup where the fund does not win.
\<close>

lemma comparison_loop_spec:
  assumes "comparison_loop inp knr per kal ys acc be = Inr (rs, be')"
  shows "\<exists>new. rs = acc @ new
           \<and> list_all2 (\<lambda>y r. yearly_outcome inp knr per kal y = Inr r) ys new
           \<and> be' = (if be = None then first_year_fund_not_winning (keren_lockup_years inp) new
                    else be)"
  using assms
proof (induction ys arbitrary: acc be)
  case Nil
  then show ?case by (simp add: first_year_fund_not_winning_def)
next
  case (Cons y ys)
  from Cons.prems obtain r where
    r: "yearly_outcome inp knr per kal y = Inr r" and
    rest: "comparison_loop inp knr per kal ys (acc @ [r])
             (if be = None \<and> \<not> keren_wins r \<and> y > keren_lockup_years inp then Some y else be)
           = Inr (rs, be')"
    by (auto simp: bind_err_eq_Inr)
  from Cons.IH [OF rest] obtain new where
    new: "rs = (acc @ [r]) @ new"
      "list_all2 (\<lambda>y r. yearly_outcome inp knr per kal y = Inr r) ys new"
      "be' = (if (if be = None \<and> \<not> keren_wins r \<and> y > keren_lockup_years inp then Some y else be) = None
              then first_year_fund_not_winning (keren_lockup_years inp) new
              else (if be = None \<and> \<not> keren_wins r \<and> y > keren_lockup_years inp then Some y else be))"
    by blast
  have yr: "year r = y"
    using r by (rule yearly_outcome_fields)
  have "rs = acc @ (r # new)"
    using new(1) by simp
  moreover have "list_all2 (\<lambda>y r. yearly_outcome inp knr per kal y = Inr r) (y # ys) (r # new)"
    using r new(2) by simp
  moreover have "be' = (if be = None
                        then first_year_fund_not_winning (keren_lockup_years inp) (r # new)
                        else be)"
    using new(3) yr by (auto simp: first_year_fund_not_winning_def)
  ultimately show ?case by blast
qed



lemma list_all2_right_member:
  "list_all2 Q xs ys \<Longrightarrow> r \<in> set ys \<Longrightarrow> \<exists>x\<in>set xs. Q x r"
  by (induction rule: list_all2_induct) auto


lemma run_comparison_spec:
  assumes "run_comparison inp = Inr res"
  shows "\<exists>kal. calculate_keren_fv (principal inp) (get_keren_net_return inp)
                 (keren_lockup_years inp) (monthly_contribution inp) = Inr kal
             \<and> list_all2 (\<lambda>y r. yearly_outcome inp (get_keren_net_return inp)
                                  (get_personal_effective_return inp) kal y = Inr r)
                  [1 .. horizon_years inp] (yearly_results res)
             \<and> breakeven_year res
                 = first_year_fund_not_winning (keren_lockup_years inp) (yearly_results res)"
proof -
  from assms obtain kal rs be where
    kal: "calculate_keren_fv (principal inp) (get_keren_net_return inp)
            (keren_lockup_years inp) (monthly_contribution inp) = Inr kal" and
    loop: "comparison_loop inp (get_keren_net_return inp) (get_personal_effective_return inp) kal
             [1 .. horizon_years inp] [] None = Inr (rs, be)" and
    res: "res = \<lparr>inputs = inp, yearly_results = rs, breakeven_year = be,
                 keren_net_return = get_keren_net_return inp,
                 personal_effective_return = get_personal_effective_return inp\<rparr>"
    by (auto simp: run_comparison_def Let_def bind_err_eq_Inr)
  from comparison_loop_spec [OF loop] kal res show ?thesis
    by auto
qed

lemma monthly_root_not_one:
  assumes "-1 < r" and "r \<noteq> 0"
  shows "\<exists>q. py_pow_float (1 + r) (1 / 12) = Inr q \<and> 0 < q \<and> q \<noteq> 1"
proof -
  have "(1 + r) powr (1 / 12) \<noteq> 1"
    using assms powr_eq_one_iff_gen [of "1 + r" "1 / 12"] by simp
  moreover have "0 < (1 + r) powr (1 / 12)"
    using assms by simp
  ultimately show ?thesis
    using assms by (simp add: py_pow_float_pos)
qed

lemma calculate_keren_fv_returns:
  assumes "-1 < r" and "r \<noteq> 0"
  shows "\<exists>v. calculate_keren_fv P r y m = Inr v"
proof -
  obtain q where q: "py_pow_float (1 + r) (1 / 12) = Inr q" "0 < q" "q \<noteq> 1"
    using monthly_root_not_one [OF assms] by blast
  show ?thesis
    using assms q by (simp add: calculate_keren_fv_def py_pow_int_def py_div_def Let_def)
qed

lemma calculate_personal_fv_aftertax_returns:
  assumes "-1 < r"
  shows "\<exists>v. calculate_personal_fv_aftertax 0 r y tax m = Inr v"
proof -
  obtain q where q: "py_pow_float (1 + r) (1 / 12) = Inr q"
    using monthly_root_returns [of r] assms by auto
  show ?thesis
    by (simp add: calculate_personal_fv_aftertax_def q Let_def contributions_loop_sum)
qed

lemma yearly_outcome_returns:
  assumes "-1 < knr" and "knr \<noteq> 0" and "-1 < per" and "per \<noteq> 0"
  shows "\<exists>res. yearly_outcome inp knr per kal yr = Inr res"
proof -
  obtain fund where fund:
    "calculate_keren_fv (principal inp) knr yr (monthly_contribution inp) = Inr fund"
    using calculate_keren_fv_returns [OF assms(1,2)] by blast
  obtain lump where lump:
    "calculate_personal_fv_pretax kal per (yr - keren_lockup_years inp) 0 = Inr lump"
    unfolding pretax_eq_keren using calculate_keren_fv_returns [OF assms(3,4)] by blast
  obtain pre where pre:
    "calculate_personal_fv_pretax 0 per (yr - keren_lockup_years inp)
       (monthly_contribution inp) = Inr pre"
    unfolding pretax_eq_keren using calculate_keren_fv_returns [OF assms(3,4)] by blast
  obtain post where post:
    "calculate_personal_fv_aftertax 0 per (yr - keren_lockup_years inp)
       (capital_gains_tax inp) (monthly_contribution inp) = Inr post"
    using calculate_personal_fv_aftertax_returns [OF assms(3)] by blast
  show ?thesis
    by (simp add: yearly_outcome_def fund lump pre post Let_def)
qed

lemma comparison_loop_returns:
  assumes "-1 < knr" and "knr \<noteq> 0" and "-1 < per" and "per \<noteq> 0"
  shows "\<exists>out. comparison_loop inp knr per kal ys acc be = Inr out"
proof (induction ys arbitrary: acc be)
  case Nil
  show ?case by simp
next
  case (Cons y ys)
  obtain res where "yearly_outcome inp knr per kal y = Inr res"
    using yearly_outcome_returns [OF assms] by blast
  then show ?case
    using Cons.IH by simp
qed

text \<open>
  Away from the two rates that the annuity formula cannot take (a return of exactly 0, and a
  return of -100% or less), the comparison returns a result.
\<close>

lemma run_comparison_returns:
  assumes "-1 < get_keren_net_return inp" and "get_keren_net_return inp \<noteq> 0"
    and "-1 < get_personal_effective_return inp" and "get_personal_effective_return inp \<noteq> 0"
  shows "\<exists>res. run_comparison inp = Inr res"
proof -
  obtain kal where kal:
    "calculate_keren_fv (principal inp) (get_keren_net_return inp) (keren_lockup_years inp)
       (monthly_contribution inp) = Inr kal"
    using calculate_keren_fv_returns [OF assms(1,2)] by blast
  obtain out where
    "comparison_loop inp (get_keren_net_return inp) (get_personal_effective_return inp) kal
       [1 .. horizon_years inp] [] None = Inr out"
    using comparison_loop_returns [OF assms] by blast
  then show ?thesis
    by (cases out) (simp add: run_comparison_def kal Let_def)
qed


text \<open>
  C4. For every input record on which \<^verbatim>\<open>run_comparison\<close> returns, the yearly
  results are those of the years 1 to the horizon in order, and every result of a year up to
  the lockup year has its personal pre-tax value, its personal after-tax value and its fund
  value all equal.
\<close>

theorem lockup_invariant:
  assumes "run_comparison inp = Inr res"
  shows "map year (yearly_results res) = [1 .. horizon_years inp]
       \<and> (\<forall>r\<in>set (yearly_results res). year r \<le> keren_lockup_years inp \<longrightarrow>
            personal_fv_pretax r = keren_fv r \<and> personal_fv_aftertax r = keren_fv r)"
proof -
  from run_comparison_spec [OF assms] obtain kal where
    all: "list_all2 (\<lambda>y r. yearly_outcome inp (get_keren_net_return inp)
                                  (get_personal_effective_return inp) kal y = Inr r)
                  [1 .. horizon_years inp] (yearly_results res)"
    by blast
  have each: "\<forall>r\<in>set (yearly_results res). \<exists>y.
                yearly_outcome inp (get_keren_net_return inp)
                  (get_personal_effective_return inp) kal y = Inr r"
    using list_all2_right_member [OF all] by blast
  have "map year (yearly_results res) = [1 .. horizon_years inp]"
    using all
    by (induction rule: list_all2_induct) (simp_all add: yearly_outcome_fields(1))
  moreover have "personal_fv_pretax r = keren_fv r \<and> personal_fv_aftertax r = keren_fv r"
    if "r \<in> set (yearly_results res)" and "year r \<le> keren_lockup_years inp" for r
  proof -
    from each that(1) obtain y where
      y: "yearly_outcome inp (get_keren_net_return inp)
            (get_personal_effective_return inp) kal y = Inr r"
      by blast
    have "y \<le> keren_lockup_years inp"
      using yearly_outcome_fields(1) [OF y] that(2) by simp
    then show ?thesis
      using yearly_outcome_locked [OF y] by simp
  qed
  ultimately show ?thesis by blast
qed

theorem lockup_invariant_witness:
  "\<exists>res. run_comparison \<lparr>principal = 0, monthly_contribution = 1571, keren_gross_return = 8 / 100,
       keren_mgmt_fee = 35 / 10000, keren_return_is_net = False, personal_return = 10 / 100,
       capital_gains_tax = 25 / 100, annual_tax_drag = 0, include_tax_drag = False,
       horizon_years = 20, keren_lockup_years = 10\<rparr> = Inr res
     \<and> map year (yearly_results res) = [1 .. 20]
     \<and> (\<forall>r\<in>set (yearly_results res). year r \<le> 10 \<longrightarrow>
            personal_fv_pretax r = keren_fv r \<and> personal_fv_aftertax r = keren_fv r)"
proof -
  let ?inp = "\<lparr>principal = 0, monthly_contribution = 1571, keren_gross_return = 8 / 100,
       keren_mgmt_fee = 35 / 10000, keren_return_is_net = False, personal_return = 10 / 100,
       capital_gains_tax = 25 / 100, annual_tax_drag = 0, include_tax_drag = False,
       horizon_years = 20, keren_lockup_years = 10\<rparr>"
  obtain res where res: "run_comparison ?inp = Inr res"
    using run_comparison_returns [of ?inp]
    by (auto simp: get_keren_net_return_def get_personal_effective_return_def)
  from lockup_invariant [OF res] res show ?thesis
    by auto
qed




section \<open>A tax rate of 0%\<close>

text \<open>
  The taxed contributions of the loop form a geometric series whose last term has grown for
  one month.
\<close>

lemma geometric_months:
  fixes q :: real
  assumes "q \<noteq> 1" and "q \<noteq> 0" and "0 \<le> n"
  shows "(\<Sum>month\<leftarrow>[1 .. n]. q powi (n - month + 1)) = q * (q ^ nat n - 1) / (q - 1)"
proof -
  have "(\<Sum>month\<leftarrow>[1 .. n]. q powi (n - month + 1)) = (\<Sum>month\<in>{1 .. n}. q powi (n - month + 1))"
    by (simp add: sum_list_distinct_conv_sum_set)
  also have "\<dots> = (\<Sum>k<nat n. q ^ Suc k)"
    apply (rule sum.reindex_bij_witness [where i = "\<lambda>k. n - int k" and j = "\<lambda>month. nat (n - month)"])
    using assms apply (auto simp: power_int_def nat_add_distrib)
    done
  also have "\<dots> = q * (\<Sum>k<nat n. q ^ k)"
    by (simp add: sum_distrib_left)
  also have "\<dots> = q * (q ^ nat n - 1) / (q - 1)"
    using assms by (simp add: geometric_sum)
  finally show ?thesis .
qed

lemma monthly_root_power:
  fixes r :: real
  assumes "0 < 1 + r" and "0 \<le> y"
  shows "((1 + r) powr (1 / 12)) ^ nat (y * 12) = (1 + r) ^ nat y"
proof -
  have e: "real (nat (y * 12)) * (1 / 12) = real (nat y)"
    using assms by simp
  have "((1 + r) powr (1 / 12)) ^ nat (y * 12) = (1 + r) powr (real (nat (y * 12)) * (1 / 12))"
    using assms by (simp only: powr_power)
  also have "\<dots> = (1 + r) powr real (nat y)"
    by (simp only: e)
  also have "\<dots> = (1 + r) ^ nat y"
    using assms(1) by (rule powr_realpow)
  finally show ?thesis .
qed

text \<open>
  C3. The specification has the after-tax personal value at a tax rate of 0 equal to the
  pre-tax personal value. The code does otherwise: for a principal \<open>P \<ge> 0\<close>, a return rate
  \<open>r > -1\<close> other than 0, \<open>y > 0\<close> years and a monthly contribution \<open>m > 0\<close> both
  calls return, and the after-tax value at a tax rate of 0 is the pre-tax value plus
  \<open>m * ((1 + r)^y - 1)\<close>, which is not 0. The loop of
  \<^verbatim>\<open>calculate_personal_fv_aftertax\<close> lets every contribution grow one month longer
  than the annuity formula of \<^verbatim>\<open>calculate_personal_fv_pretax\<close> does.
\<close>

theorem zero_tax_differs_from_pretax:
  assumes "0 \<le> P" and "-1 < r" and "r \<noteq> 0" and "0 < y" and "0 < m"
  shows "\<exists>a b. calculate_personal_fv_aftertax P r y 0 m = Inr a
             \<and> calculate_personal_fv_pretax P r y m = Inr b
             \<and> a = b + m * ((1 + r) ^ nat y - 1) \<and> a \<noteq> b"
proof -
  obtain q where q: "py_pow_float (1 + r) (1 / 12) = Inr q" "0 < q" "q \<noteq> 1"
    using monthly_root_not_one [OF assms(2,3)] by blast
  have q_def: "q = (1 + r) powr (1 / 12)"
    using q(1) assms by (simp add: py_pow_float_pos)
  have grow: "q ^ nat (y * 12) = (1 + r) ^ nat y"
    unfolding q_def using assms by (intro monthly_root_power) simp_all
  define A where "A = (q ^ nat (y * 12) - 1) / (q - 1)"
  have pre: "calculate_personal_fv_pretax P r y m = Inr (P * (1 + r) ^ nat y + m * A)"
    using assms q
    by (simp add: calculate_personal_fv_pretax_def py_pow_int_def py_div_def Let_def
        power_int_def A_def)
  have lump: "(if P > 0 then
          bind_err (py_pow_int (1 + r) y) (\<lambda>growth.
            let fv_lump_pretax = P * growth;
                gain_lump = fv_lump_pretax - P
            in Inr (P + gain_lump * (1 - 0)))
        else Inr 0) = Inr (P * (1 + r) ^ nat y)"
    using assms by (simp add: py_pow_int_nonneg Let_def)
  have "contributions_loop m (q - 1) 0 y [1 .. y * 12] 0
        = Inr (\<Sum>month\<leftarrow>[1 .. y * 12]. m * q powi (y * 12 - month + 1))"
    by (simp add: contributions_loop_sum)
  also have "(\<Sum>month\<leftarrow>[1 .. y * 12]. m * q powi (y * 12 - month + 1))
             = m * (\<Sum>month\<leftarrow>[1 .. y * 12]. q powi (y * 12 - month + 1))"
    by (simp add: sum_list_const_mult)
  also have "\<dots> = m * (q * A)"
    using geometric_months [of q "y * 12"] q assms by (simp add: A_def)
  finally have loop: "contributions_loop m (q - 1) 0 y [1 .. y * 12] 0 = Inr (m * (q * A))" .
  have post: "calculate_personal_fv_aftertax P r y 0 m = Inr (P * (1 + r) ^ nat y + m * (q * A))"
    unfolding calculate_personal_fv_aftertax_def lump
    using assms by (simp add: q(1) loop Let_def)
  have "m * (q * A) - m * A = m * ((q - 1) * A)"
    by (simp add: algebra_simps)
  also have "(q - 1) * A = q ^ nat (y * 12) - 1"
    using q by (simp add: A_def)
  finally have diff: "m * (q * A) - m * A = m * ((1 + r) ^ nat y - 1)"
    by (simp add: grow)
  have "(1 + r) ^ nat y \<noteq> 1"
    using assms power_eq_1_iff [of "1 + r" "nat y"] by auto
  then have "m * ((1 + r) ^ nat y - 1) \<noteq> 0"
    using assms by simp
  then show ?thesis
    using pre post diff by (intro exI conjI) (assumption, assumption, linarith, linarith)
qed

theorem zero_tax_differs_from_pretax_witness:
  "(0::real) \<le> 0 \<and> (-1::real) < 1 / 10 \<and> (1 / 10 :: real) \<noteq> 0 \<and> (0::int) < 1 \<and> (0::real) < 100
   \<and> (\<exists>a b. calculate_personal_fv_aftertax 0 (1 / 10) 1 0 100 = Inr a
            \<and> calculate_personal_fv_pretax 0 (1 / 10) 1 100 = Inr b \<and> a = b + 10)
   \<and> calculate_personal_fv_aftertax 0 (1 / 10) 1 0 100
       \<noteq> calculate_personal_fv_pretax 0 (1 / 10) 1 100"
  using zero_tax_differs_from_pretax [of 0 "1 / 10" 1 100] by auto

section \<open>The range of the break-even search\<close>

text \<open>
  A year that \<^verbatim>\<open>find_breakeven_year\<close> returns lies after the lockup and within
  \<open>max_years\<close>, and over an empty range the search returns nothing once the fund value at
  the lockup has been computed.
\<close>

lemma breakeven_loop_range:
  assumes "breakeven_loop P knr pr tax m lockup kal ys = Inr (Some y)"
  shows "y \<in> set ys"
  using assms
proof (induction ys)
  case Nil
  then show ?case by simp
next
  case (Cons x xs)
  then show ?case
    by (auto simp: bind_err_eq_Inr Let_def split: if_splits)
qed

lemma find_breakeven_year_range:
  assumes "find_breakeven_year P knr pr tax m max_years lockup = Inr (Some y)"
  shows "lockup < y \<and> y \<le> max_years"
proof -
  from assms obtain kal where
    "breakeven_loop P knr pr tax m lockup kal [lockup + 1 .. max_years] = Inr (Some y)"
    by (auto simp: find_breakeven_year_def bind_err_eq_Inr)
  then have "y \<in> set [lockup + 1 .. max_years]"
    by (rule breakeven_loop_range)
  then show ?thesis by simp
qed

lemma find_breakeven_year_empty_range:
  assumes "max_years \<le> lockup"
  shows "find_breakeven_year P knr pr tax m max_years lockup
         = bind_err (calculate_keren_fv P knr lockup m) (\<lambda>kal. Inr None)"
  using assms by (simp add: find_breakeven_year_def)

text \<open>
  C10. An empty range, \<open>keren_lockup_years \<ge> max_years\<close>, is meant to make
  \<^verbatim>\<open>find_breakeven_year\<close> return \<open>None\<close> for every input. The fund value at the lockup is computed before
  the range is looked at, so with a fund return of 0, a positive contribution and a positive
  lockup the call raises \<^verbatim>\<open>ZeroDivisionError\<close>, whatever the range.
\<close>

theorem breakeven_search_zero_return_raises:
  assumes "0 < m" and "0 < lockup"
  shows "find_breakeven_year P 0 pr tax m max_years lockup = Inl ZeroDivisionError"
  using assms
  by (simp add: find_breakeven_year_def calculate_keren_fv_def py_pow_int_def py_pow_float_def
      py_div_def Let_def)

theorem breakeven_search_zero_return_raises_witness:
  "(0::real) < 1571 \<and> (0::int) < 10 \<and> (10::int) \<le> 10
   \<and> find_breakeven_year 0 0 (10 / 100) (25 / 100) 1571 10 10 = Inl ZeroDivisionError"
  using breakeven_search_zero_return_raises [of 1571 10 0 "10 / 100" "25 / 100" 10] by simp

section \<open>The shape of the sensitivity matrix\<close>

text \<open>
  Every row is made by the same loop over the tax rates, so all rows have the same keys: the
  index key followed by the labels of the tax rates, each label once, in the order of its first
  occurrence. A cell under a tax label is what \<^const>\<open>breakeven_cell\<close> makes of a result
  of the break-even search.
\<close>

lemma breakeven_cell_valid:
  assumes "find_breakeven_year P knr pr tr m max_years lockup = Inr be"
  shows "breakeven_cell be = StrCell ''>50''
       \<or> (\<exists>y. breakeven_cell be = IntCell y \<and> lockup < y \<and> y \<le> max_years \<and> y \<noteq> 0)"
proof (cases be)
  case None
  then show ?thesis by (simp add: breakeven_cell_def)
next
  case (Some y)
  then show ?thesis
    using find_breakeven_year_range [of P knr pr tr m max_years lockup y] assms
    by (simp add: breakeven_cell_def)
qed

lemma sensitivity_row_spec:
  assumes "sensitivity_row P knr pr m max_years lockup trs row = Inr row'"
    and "\<forall>k c. map_of row k = Some c \<longrightarrow> k = ''Personal Return'' \<or> Q c"
    and "\<And>tr be. find_breakeven_year P knr pr tr m max_years lockup = Inr be \<Longrightarrow> Q (breakeven_cell be)"
  shows "map fst row'
           = foldl (\<lambda>ks tr. if tax_label tr \<in> set ks then ks else ks @ [tax_label tr])
               (map fst row) trs
       \<and> (\<forall>k c. map_of row' k = Some c \<longrightarrow> k = ''Personal Return'' \<or> Q c)"
  using assms(1,2)
proof (induction trs arbitrary: row)
  case Nil
  then show ?case by simp
next
  case (Cons tr rest)
  from Cons.prems(1) obtain be where
    be: "find_breakeven_year P knr pr tr m max_years lockup = Inr be" and
    loop: "sensitivity_row P knr pr m max_years lockup rest
             (AList.update (tax_label tr) (breakeven_cell be) row) = Inr row'"
    by (auto simp: bind_err_eq_Inr)
  have inv: "\<forall>k c. map_of (AList.update (tax_label tr) (breakeven_cell be) row) k = Some c
               \<longrightarrow> k = ''Personal Return'' \<or> Q c"
    using Cons.prems(2) assms(3) [OF be] by (auto simp: update_Some_unfold)
  from Cons.IH [OF loop inv] show ?case
    by (simp add: update_keys)
qed

lemma label_fold_distinct:
  fixes f :: "'a \<Rightarrow> 'b"
  shows "distinct ks \<Longrightarrow> distinct (foldl (\<lambda>ks x. if f x \<in> set ks then ks else ks @ [f x]) ks xs)"
  by (induction xs arbitrary: ks) simp_all

lemma label_fold_set:
  fixes f :: "'a \<Rightarrow> 'b"
  shows "set (foldl (\<lambda>ks x. if f x \<in> set ks then ks else ks @ [f x]) ks xs) = set ks \<union> f ` set xs"
  by (induction xs arbitrary: ks) auto

lemma tax_label_not_index: "tax_label tr \<noteq> ''Personal Return''"
  by (simp add: tax_label_def)

lemma sensitivity_rows_spec:
  assumes "sensitivity_rows P knr trs m max_years lockup prs data = Inr data'"
  shows "\<exists>new. data' = data @ new \<and> length new = length prs
           \<and> (\<forall>d\<in>set new.
                 map fst d = foldl (\<lambda>ks tr. if tax_label tr \<in> set ks then ks else ks @ [tax_label tr])
                               [''Personal Return''] trs
               \<and> (\<forall>k c. map_of d k = Some c \<longrightarrow> k = ''Personal Return''
                     \<or> c = StrCell ''>50''
                     \<or> (\<exists>y. c = IntCell y \<and> lockup < y \<and> y \<le> max_years \<and> y \<noteq> 0)))"
  using assms
proof (induction prs arbitrary: data)
  case Nil
  then show ?case by simp
next
  case (Cons pr rest)
  let ?Q = "\<lambda>c. c = StrCell ''>50''
              \<or> (\<exists>y. c = IntCell y \<and> lockup < y \<and> y \<le> max_years \<and> y \<noteq> 0)"
  from Cons.prems obtain row where
    row: "sensitivity_row P knr pr m max_years lockup trs
            [(''Personal Return'', StrCell (format_f1 (pr * 100) @ ''%''))] = Inr row" and
    loop: "sensitivity_rows P knr trs m max_years lockup rest (data @ [row]) = Inr data'"
    by (auto simp: bind_err_eq_Inr)
  have "map fst row = foldl (\<lambda>ks tr. if tax_label tr \<in> set ks then ks else ks @ [tax_label tr])
                        (map fst [(''Personal Return'', StrCell (format_f1 (pr * 100) @ ''%''))]) trs
        \<and> (\<forall>k c. map_of row k = Some c \<longrightarrow> k = ''Personal Return'' \<or> ?Q c)"
  proof (rule sensitivity_row_spec [OF row])
    show "\<forall>k c. map_of [(''Personal Return'', StrCell (format_f1 (pr * 100) @ ''%''))] k = Some c
            \<longrightarrow> k = ''Personal Return'' \<or> ?Q c"
      by (simp split: if_splits)
    show "?Q (breakeven_cell be)"
      if "find_breakeven_year P knr pr tr m max_years lockup = Inr be" for tr be
      using breakeven_cell_valid [OF that] by blast
  qed
  then have this_row:
    "map fst row = foldl (\<lambda>ks tr. if tax_label tr \<in> set ks then ks else ks @ [tax_label tr])
                     [''Personal Return''] trs"
    "\<forall>k c. map_of row k = Some c \<longrightarrow> k = ''Personal Return'' \<or> ?Q c"
    by simp_all
  from Cons.IH [OF loop] obtain new where
    new: "data' = (data @ [row]) @ new" "length new = length rest"
      "\<forall>d\<in>set new.
         map fst d = foldl (\<lambda>ks tr. if tax_label tr \<in> set ks then ks else ks @ [tax_label tr])
                       [''Personal Return''] trs
       \<and> (\<forall>k c. map_of d k = Some c \<longrightarrow> k = ''Personal Return'' \<or> ?Q c)"
    by blast
  show ?case
  proof (intro exI [of _ "row # new"] conjI)
    show "data' = data @ row # new" using new(1) by simp
    show "length (row # new) = length (pr # rest)" using new(2) by simp
    show "\<forall>d\<in>set (row # new).
         map fst d = foldl (\<lambda>ks tr. if tax_label tr \<in> set ks then ks else ks @ [tax_label tr])
                       [''Personal Return''] trs
       \<and> (\<forall>k c. map_of d k = Some c \<longrightarrow> k = ''Personal Return'' \<or> ?Q c)"
      using this_row new(3) by simp
  qed
qed

lemma frame_columns_uniform:
  assumes "data \<noteq> []" and "distinct K" and "\<forall>d\<in>set data. map fst d = K"
  shows "frame_columns data = K"
proof -
  have fixed: "foldl (\<lambda>cols d. cols @ filter (\<lambda>k. k \<notin> set cols) (map fst d)) K ds = K"
    if "\<forall>d\<in>set ds. map fst d = K" for ds :: "row list"
    using that by (induction ds) simp_all
  obtain d ds where data: "data = d # ds"
    using assms(1) by (cases data) auto
  show ?thesis
    using assms(3) fixed [of ds] by (simp add: frame_columns_def data)
qed

lemma sum_list_uniform_length:
  "\<forall>r\<in>set vs. length r = n \<Longrightarrow> sum_list (map length vs) = length vs * n"
  by (induction vs) simp_all

lemma format_simps:
  "format_f0 25 = ''25''" "format_f0 30 = ''30''" "format_f1 10 = ''10.0''" "format_f1 1 = ''1.0''"
  by (simp_all add: format_f0_def format_f1_def round_half_even_def digits_of_nat.simps
      digit_char_def Let_def)

text \<open>
  C9, as stated, at the tax rates 25%, 25% and the single personal return 10%: both tax rates
  have the label \<^verbatim>\<open>Tax 25%\<close>, the second assignment to the row replaces the first,
  and the matrix has one cell, not \<open>1 * 2\<close>.
\<close>

theorem sensitivity_matrix_duplicate_tax_counterexample:
  "generate_sensitivity_matrix 1000 (5 / 100) [10 / 100] [25 / 100, 25 / 100] 0 2 1
     = Inr \<lparr>df_index = [Some (StrCell ''10.0%'')], df_columns = [''Tax 25%''],
            df_values = [[Some (IntCell 2)]]\<rparr>
   \<and> sum_list (map length [[Some (IntCell 2)]]) = 1
   \<and> length [10 / 100 :: real] * length [25 / 100, 25 / 100 :: real] = 2"
  by (simp add: generate_sensitivity_matrix_def set_index_def frame_columns_def tax_label_def
      format_simps breakeven_cell_def find_breakeven_year_def calculate_keren_fv_def
      calculate_personal_fv_pretax_def calculate_personal_fv_aftertax_def py_pow_int_def
      Let_def upto.simps power_divide)

text \<open>
  C9, amended. For every list of personal returns and every list of tax rates on which
  \<^verbatim>\<open>generate_sensitivity_matrix\<close> returns, the matrix has one row per personal
  return and one column per distinct tax label, so every row has as many cells as there are
  distinct labels; when the labels of the tax rates are pairwise distinct the matrix has
  exactly \<open>len(personal_returns) * len(tax_rates)\<close> cells. Every cell is either an integer
  year \<open>y\<close> other than 0 with \<open>lockup < y \<le> max_years\<close> (a positive integer when the lockup
  is not negative) or the string \<^verbatim>\<open>">50"\<close>; no cell is fractional or missing.
\<close>

theorem sensitivity_matrix_shape:
  assumes "generate_sensitivity_matrix P knr prs trs m max_years lockup = Inr df"
  shows "length (df_values df) = length prs
       \<and> length (df_columns df) = card (tax_label ` set trs)
       \<and> (\<forall>r\<in>set (df_values df). length r = card (tax_label ` set trs))
       \<and> (distinct (map tax_label trs) \<longrightarrow>
            sum_list (map length (df_values df)) = length prs * length trs)
       \<and> (\<forall>r\<in>set (df_values df). \<forall>c\<in>set r.
            c = Some (StrCell ''>50'')
          \<or> (\<exists>y. c = Some (IntCell y) \<and> lockup < y \<and> y \<le> max_years \<and> y \<noteq> 0))"
proof -
  let ?K = "foldl (\<lambda>ks tr. if tax_label tr \<in> set ks then ks else ks @ [tax_label tr])
              [''Personal Return''] trs"
  let ?Q = "\<lambda>c. c = StrCell ''>50''
              \<or> (\<exists>y. c = IntCell y \<and> lockup < y \<and> y \<le> max_years \<and> y \<noteq> 0)"
  let ?n = "card (tax_label ` set trs)"
  from assms obtain data where
    rows: "sensitivity_rows P knr trs m max_years lockup prs [] = Inr data" and
    frame: "set_index ''Personal Return'' data = Inr df"
    by (auto simp: generate_sensitivity_matrix_def bind_err_eq_Inr)
  from sensitivity_rows_spec [OF rows] have
    len: "length data = length prs" and
    keys: "\<forall>d\<in>set data. map fst d = ?K" and
    cells: "\<forall>d\<in>set data. \<forall>k c. map_of d k = Some c \<longrightarrow> k = ''Personal Return'' \<or> ?Q c"
    by auto
  have K_distinct: "distinct ?K"
    by (rule label_fold_distinct) simp
  have K_set: "set ?K = {''Personal Return''} \<union> tax_label ` set trs"
    by (simp add: label_fold_set)
  have nonempty: "data \<noteq> []"
    using frame by (auto simp: set_index_def frame_columns_def)
  have cols: "frame_columns data = ?K"
    using nonempty K_distinct keys by (rule frame_columns_uniform)
  define rest where "rest = filter (\<lambda>k. k \<noteq> ''Personal Return'') ?K"
  have df: "df_columns df = rest" "df_values df = map (\<lambda>d. map (map_of d) rest) data"
    using frame by (auto simp: set_index_def cols rest_def Let_def split: if_splits)
  have rest_set: "set rest = tax_label ` set trs"
    using tax_label_not_index by (auto simp: rest_def K_set)
  have "distinct rest"
    using K_distinct by (simp add: rest_def)
  then have rest_len: "length rest = ?n"
    using distinct_card [of rest] rest_set by simp
  have row_len: "\<forall>r\<in>set (df_values df). length r = ?n"
    by (auto simp: df rest_len)
  have total: "sum_list (map length (df_values df)) = length prs * length trs"
    if "distinct (map tax_label trs)"
  proof -
    have "?n = length trs"
      using distinct_card [OF that] by simp
    then show ?thesis
      using sum_list_uniform_length [OF row_len] by (simp add: df(2) len)
  qed
  have valid: "c = Some (StrCell ''>50'')
          \<or> (\<exists>y. c = Some (IntCell y) \<and> lockup < y \<and> y \<le> max_years \<and> y \<noteq> 0)"
    if "r \<in> set (df_values df)" and "c \<in> set r" for r c
  proof -
    from that obtain d k where d: "d \<in> set data" and k: "k \<in> set rest" and c: "c = map_of d k"
      by (auto simp: df(2))
    have "map fst d = ?K"
      using keys d by blast
    moreover have "k \<in> set ?K"
      using k unfolding rest_def by (simp only: set_filter mem_Collect_eq)
    ultimately have "k \<in> set (map fst d)"
      by (simp only:)
    then have "k \<in> fst ` set d"
      by (simp only: set_map)
    then obtain c' where c': "map_of d k = Some c'"
      by (cases "map_of d k") (auto simp: map_of_eq_None_iff)
    have "k \<noteq> ''Personal Return''"
      using k rest_set tax_label_not_index by auto
    then have "?Q c'"
      using cells d c' by blast
    then show ?thesis
      using c c' by auto
  qed
  show ?thesis
    using len rest_len row_len total valid by (simp add: df)
qed

theorem sensitivity_matrix_shape_witness:
  "generate_sensitivity_matrix 1000 (5 / 100) [10 / 100, 1 / 100] [25 / 100, 30 / 100] 0 2 1
     = Inr \<lparr>df_index = [Some (StrCell ''10.0%''), Some (StrCell ''1.0%'')],
            df_columns = [''Tax 25%'', ''Tax 30%''],
            df_values = [[Some (IntCell 2), Some (IntCell 2)],
                         [Some (StrCell ''>50''), Some (StrCell ''>50'')]]\<rparr>
   \<and> card (tax_label ` set [25 / 100, 30 / 100]) = 2"
proof -
  have run: "generate_sensitivity_matrix 1000 (5 / 100) [10 / 100, 1 / 100] [25 / 100, 30 / 100] 0 2 1
     = Inr \<lparr>df_index = [Some (StrCell ''10.0%''), Some (StrCell ''1.0%'')],
            df_columns = [''Tax 25%'', ''Tax 30%''],
            df_values = [[Some (IntCell 2), Some (IntCell 2)],
                         [Some (StrCell ''>50''), Some (StrCell ''>50'')]]\<rparr>"
    by (simp add: generate_sensitivity_matrix_def set_index_def frame_columns_def tax_label_def
        format_simps breakeven_cell_def find_breakeven_year_def calculate_keren_fv_def
        calculate_personal_fv_pretax_def calculate_personal_fv_aftertax_def py_pow_int_def
        Let_def upto.simps power_divide)
  from sensitivity_matrix_shape [OF run] run show ?thesis
    by simp
qed

end
